theory Spec2Isabelle
  imports Main "HOL-Library.AList"
begin

section \<open>The direct connect resource manager of cracklord\<close>

text \<open>
  A shallow embedding of \<^verbatim>\<open>plugins/resourcemanagers/directconnect/directconnect.go\<close>.
  The manager keeps a map from resource ids to local metadata and drives the queue
  (the broker) that owns the resources themselves. Every method takes the manager and
  returns it updated; a Go \<^verbatim>\<open>error\<close> result is an \<open>error option\<close>, with \<open>None\<close>
  for \<^verbatim>\<open>nil\<close>. The model is sequential: one method runs at a time.
\<close>

subsection \<open>Data\<close>

text \<open>A Go \<^verbatim>\<open>error\<close> value is modelled by its message.\<close>

type_synonym error = string

text \<open>
  \<^verbatim>\<open>time.Time\<close> is a count of clock ticks; the zero value of the Go type, which a
  struct literal leaves in a field it does not mention, is \<open>zero_time\<close>.
\<close>

type_synonym time = nat

definition zero_time :: time where
  "zero_time = 0"

text \<open>The field \<^verbatim>\<open>notes\<close> is \<open>notes'\<close> here: the plain name is a keyword of Isabelle.\<close>

record resourceInfo =
  notes' :: string
  lastGoodCheck :: time

text \<open>
  Modelled from the spec: the type \<^verbatim>\<open>queue.Resource\<close> of the package
  \<^verbatim>\<open>common/queue\<close>, which is not among the sources. The broker resource has a status
  (running, paused and others), and the name and address it was registered and connected
  with. The manager reads the field \<^verbatim>\<open>Status\<close> only.
\<close>

record Resource =
  Name :: string
  Address :: string
  Status :: string

subsection \<open>The registry\<close>

text \<open>
  Modelled from the spec: the map type \<^verbatim>\<open>protectedmap.ProtectedMap\<close>, a library that
  is not among the sources. The registry maps a resource id to its metadata, with unique
  keys; \<open>pm_Iterator\<close> yields the entries present at the call, each once. The model is an
  association list, whose order stands for the order in which the iterator happens to
  yield the entries.
\<close>

type_synonym ProtectedMap = "(string \<times> resourceInfo) list"

definition pm_New :: ProtectedMap where
  "pm_New = []"

definition pm_Set :: "string \<Rightarrow> resourceInfo \<Rightarrow> ProtectedMap \<Rightarrow> ProtectedMap" where
  "pm_Set key val pm = AList.update key val pm"

definition pm_Get :: "ProtectedMap \<Rightarrow> string \<Rightarrow> resourceInfo option" where
  "pm_Get pm key = map_of pm key"

definition pm_Delete :: "string \<Rightarrow> ProtectedMap \<Rightarrow> ProtectedMap" where
  "pm_Delete key pm = AList.delete key pm"

definition pm_Count :: "ProtectedMap \<Rightarrow> nat" where
  "pm_Count pm = length pm"

definition pm_Iterator :: "ProtectedMap \<Rightarrow> (string \<times> resourceInfo) list" where
  "pm_Iterator pm = pm"

text \<open>The keys of the registry, and the well-formedness of a registry: no key twice.\<close>

definition pm_keys :: "ProtectedMap \<Rightarrow> string set" where
  "pm_keys pm = fst ` set pm"

definition pm_wf :: "ProtectedMap \<Rightarrow> bool" where
  "pm_wf pm = distinct (map fst pm)"

subsection \<open>The queue\<close>

text \<open>
  The queue \<^verbatim>\<open>*queue.Queue\<close> is code outside this file. It is a parameter of the
  model: a record of its methods, each a function of the state \<open>'q\<close> of everything
  outside the manager (the queue, the network, the clock) that returns its result
  and the state it leaves. \<^verbatim>\<open>AddResource\<close> returns an id or an error;
  \<^verbatim>\<open>GetResource\<close> returns the resource when it is found. The TLS configuration that the
  manager hands to \<^verbatim>\<open>ConnectResource\<close> is fixed at \<^verbatim>\<open>Setup\<close> and is part of
  \<open>q_ConnectResource\<close>. \<open>time_Now\<close> reads the clock.
\<close>

record 'q Queue =
  q_AddResource :: "string \<Rightarrow> 'q \<Rightarrow> (error + string) \<times> 'q"
  q_ConnectResource :: "string \<Rightarrow> string \<Rightarrow> 'q \<Rightarrow> error option \<times> 'q"
  q_RemoveResource :: "string \<Rightarrow> 'q \<Rightarrow> error option \<times> 'q"
  q_GetResource :: "string \<Rightarrow> 'q \<Rightarrow> Resource option \<times> 'q"
  q_ResumeResource :: "string \<Rightarrow> 'q \<Rightarrow> error option \<times> 'q"
  q_PauseResource :: "string \<Rightarrow> 'q \<Rightarrow> error option \<times> 'q"
  q_CheckResourceConnectionStatus :: "Resource \<Rightarrow> 'q \<Rightarrow> bool \<times> 'q"
  time_Now :: "'q \<Rightarrow> time"

text \<open>The calls that the manager makes on the queue, recorded in the order made.\<close>

datatype call =
    CallAddResource string
  | CallConnectResource string string
  | CallRemoveResource string
  | CallGetResource string
  | CallResumeResource string
  | CallPauseResource string
  | CallCheckResourceConnectionStatus Resource

subsection \<open>The manager\<close>

text \<open>
  \<open>resources\<close> is the registry and \<open>q\<close> the state behind the queue pointer. Two fields
  are written only, to observe the effects: \<open>calls\<close>, the queue calls made so far, and
  \<open>errlog\<close>, the resource ids of the \<^verbatim>\<open>logger.Error\<close> lines written so far.
\<close>

record 'q directResourceManager =
  resources :: ProtectedMap
  q :: 'q
  calls :: "call list"
  errlog :: "string list"

definition Setup :: "'q \<Rightarrow> 'q directResourceManager" where
  "Setup qpointer = \<lparr>resources = pm_New, q = qpointer, calls = [], errlog = []\<rparr>"

text \<open>One queue call: the state behind the queue is replaced and the call is recorded.\<close>

definition called :: "call \<Rightarrow> 'q \<Rightarrow> 'q directResourceManager \<Rightarrow> 'q directResourceManager" where
  "called c w this = this\<lparr>q := w, calls := calls this @ [c]\<rparr>"

text \<open>Indexing a Go map of strings at a missing key gives the empty string.\<close>

definition index_params :: "(string \<rightharpoonup> string) \<Rightarrow> string \<Rightarrow> string" where
  "index_params params key = (case params key of None \<Rightarrow> '''' | Some v \<Rightarrow> v)"

definition parseParams :: "(string \<rightharpoonup> string) \<Rightarrow> resourceInfo" where
  "parseParams params = \<lparr>notes' = index_params params ''notes'', lastGoodCheck = zero_time\<rparr>"

definition AddResource ::
  "'q Queue \<Rightarrow> (string \<rightharpoonup> string) \<Rightarrow> 'q directResourceManager
    \<Rightarrow> error option \<times> 'q directResourceManager" where
  "AddResource Q params this =
     (case params ''address'' of
        None \<Rightarrow> (Some ''Cannot add resource, address was not specified.'', this)
      | Some address \<Rightarrow>
          (case params ''name'' of
             None \<Rightarrow> (Some ''Cannot add resource, name was not specified.'', this)
           | Some name \<Rightarrow>
               (let (added, w1) = q_AddResource Q name (q this);
                    this1 = called (CallAddResource name) w1 this
                in case added of
                     Inl err \<Rightarrow> (Some err, this1)
                   | Inr uuid \<Rightarrow>
                       (let (err, w2) = q_ConnectResource Q uuid address (q this1);
                            this2 = called (CallConnectResource uuid address) w2 this1
                        in case err of
                             Some e \<Rightarrow> (Some e, this2)
                           | None \<Rightarrow>
                               (None, this2\<lparr>resources :=
                                  pm_Set uuid (parseParams params) (resources this2)\<rparr>)))))"


text \<open>
  \<^verbatim>\<open>GetResource\<close> returns the queue's resource and the parameters, or an error (the
  empty resource and the nil map that Go returns beside the error are not modelled:
  no caller reads them).
\<close>

definition GetResource ::
  "'q Queue \<Rightarrow> string \<Rightarrow> 'q directResourceManager
    \<Rightarrow> (error + Resource \<times> (string \<rightharpoonup> string)) \<times> 'q directResourceManager" where
  "GetResource Q resourceid this =
     (let (found, w1) = q_GetResource Q resourceid (q this);
          this1 = called (CallGetResource resourceid) w1 this
      in case found of
           None \<Rightarrow> (Inl ''Resource with requested ID not found in the queue.'', this1)
         | Some resource \<Rightarrow>
             (case pm_Get (resources this1) resourceid of
                None \<Rightarrow>
                  (Inl ''Resource with requested ID could not be found in direct connect resource manager.'',
                   this1)
              | Some localres \<Rightarrow>
                  (Inr (resource, [''notes'' \<mapsto> notes' localres]), this1)))"

definition UpdateResource ::
  "'q Queue \<Rightarrow> string \<Rightarrow> string \<Rightarrow> (string \<rightharpoonup> string) \<Rightarrow> 'q directResourceManager
    \<Rightarrow> error option \<times> 'q directResourceManager" where
  "UpdateResource Q resourceid newstatus newparams this =
     (let (got, this1) = GetResource Q resourceid this
      in case got of
           Inl err \<Rightarrow> (Some err, this1)
         | Inr (oldresource, _) \<Rightarrow>
             (let this2 = this1\<lparr>resources :=
                    pm_Set resourceid (parseParams newparams) (resources this1)\<rparr>
              in if Status oldresource \<noteq> newstatus then
                   (if newstatus = ''resume'' then
                      (let (err, w) = q_ResumeResource Q resourceid (q this2)
                       in (err, called (CallResumeResource resourceid) w this2))
                    else if newstatus = ''pause'' then
                      (let (err, w) = q_PauseResource Q resourceid (q this2)
                       in (err, called (CallPauseResource resourceid) w this2))
                    else (None, this2))
                 else (None, this2)))"

text \<open>
  \<^verbatim>\<open>make([]string, n)\<close> is a slice of \<open>n\<close> empty strings; the loop appends one id for
  each entry that the iterator yields.
\<close>

definition GetManagedResources :: "'q directResourceManager \<Rightarrow> string list" where
  "GetManagedResources this =
     fold (\<lambda>data resourceids. resourceids @ [fst data])
       (pm_Iterator (resources this))
       (replicate (pm_Count (resources this)) '''')"

text \<open>
  The body of the loop of \<^verbatim>\<open>Keep\<close>, for the entry \<open>(key, localResource)\<close> that the
  iterator yielded; \<^verbatim>\<open>continue\<close> ends the body.
\<close>

definition Keep_body ::
  "'q Queue \<Rightarrow> string \<Rightarrow> resourceInfo \<Rightarrow> 'q directResourceManager
    \<Rightarrow> 'q directResourceManager" where
  "Keep_body Q key localResource this =
     (let (found, w1) = q_GetResource Q key (q this);
          this1 = called (CallGetResource key) w1 this
      in case found of
           None \<Rightarrow> this1\<lparr>errlog := errlog this1 @ [key]\<rparr>
         | Some queueResource \<Rightarrow>
             (let (status, w2) = q_CheckResourceConnectionStatus Q queueResource (q this1);
                  this2 = called (CallCheckResourceConnectionStatus queueResource) w2 this1;
                  localResource' =
                    (if status then localResource\<lparr>lastGoodCheck := time_Now Q (q this2)\<rparr>
                     else localResource)
              in this2\<lparr>resources := pm_Set key localResource' (resources this2)\<rparr>))"

fun Keep_loop ::
  "'q Queue \<Rightarrow> (string \<times> resourceInfo) list \<Rightarrow> 'q directResourceManager
    \<Rightarrow> 'q directResourceManager" where
  "Keep_loop Q [] this = this"
| "Keep_loop Q (data # rest) this = Keep_loop Q rest (Keep_body Q (fst data) (snd data) this)"

definition Keep :: "'q Queue \<Rightarrow> 'q directResourceManager \<Rightarrow> 'q directResourceManager" where
  "Keep Q this = Keep_loop Q (pm_Iterator (resources this)) this"

text \<open>The ids that \<^verbatim>\<open>Keep\<close> has looked up in the queue, read off the recorded calls.\<close>

fun lookups :: "call list \<Rightarrow> string list" where
  "lookups [] = []"
| "lookups (CallGetResource key # cs) = key # lookups cs"
| "lookups (c # cs) = lookups cs"

text \<open>The number of pause calls among the recorded calls.\<close>

fun pauses :: "call list \<Rightarrow> nat" where
  "pauses [] = 0"
| "pauses (CallPauseResource key # cs) = Suc (pauses cs)"
| "pauses (c # cs) = pauses cs"

subsection \<open>A queue to run the manager on\<close>

text \<open>
  Modelled from the spec: the queue of the package \<^verbatim>\<open>common/queue\<close>, which is not among
  the sources, as far as the broker contract describes it. It is used only to run
  the manager on concrete inputs. The state holds the resources of the queue by id, the ids
  that \<^verbatim>\<open>AddResource\<close> will hand out, the addresses that answer at present, and the
  clock. A resource is created without address and status, is running once connected,
  paused after a pause and running after a resume; a resource answers when its
  address does, and only a resource that answers can be connected, paused or resumed.
  Where the contract leaves open when a call fails, this queue is one possibility among
  many: the theorems about the manager are stated for every queue, and this one gives
  them concrete inputs.
\<close>

record simq =
  pool :: "(string \<times> Resource) list"
  ids :: "string list"
  reachable :: "string list"
  clock :: time

definition sim_AddResource :: "string \<Rightarrow> simq \<Rightarrow> (error + string) \<times> simq" where
  "sim_AddResource name w =
     (case ids w of
        [] \<Rightarrow> (Inl ''no id left'', w)
      | uuid # rest \<Rightarrow>
          (Inr uuid,
           w\<lparr>pool := AList.update uuid \<lparr>Name = name, Address = [], Status = []\<rparr> (pool w),
             ids := rest\<rparr>))"

definition sim_change ::
  "(Resource \<Rightarrow> Resource) \<Rightarrow> string \<Rightarrow> simq \<Rightarrow> error option \<times> simq" where
  "sim_change f uuid w =
     (case map_of (pool w) uuid of
        None \<Rightarrow> (Some ''no such resource'', w)
      | Some r \<Rightarrow>
          (if Address (f r) \<in> set (reachable w)
           then (None, w\<lparr>pool := AList.update uuid (f r) (pool w)\<rparr>)
           else (Some ''resource does not answer'', w)))"

definition sim_RemoveResource :: "string \<Rightarrow> simq \<Rightarrow> error option \<times> simq" where
  "sim_RemoveResource uuid w =
     (case map_of (pool w) uuid of
        None \<Rightarrow> (Some ''no such resource'', w)
      | Some r \<Rightarrow> (None, w\<lparr>pool := AList.delete uuid (pool w)\<rparr>))"

definition simQueue :: "simq Queue" where
  "simQueue =
     \<lparr>q_AddResource = sim_AddResource,
      q_ConnectResource =
        (\<lambda>uuid address. sim_change (\<lambda>r. r\<lparr>Address := address, Status := ''running''\<rparr>) uuid),
      q_RemoveResource = sim_RemoveResource,
      q_GetResource = (\<lambda>uuid w. (map_of (pool w) uuid, w)),
      q_ResumeResource = sim_change (\<lambda>r. r\<lparr>Status := ''running''\<rparr>),
      q_PauseResource = sim_change (\<lambda>r. r\<lparr>Status := ''paused''\<rparr>),
      q_CheckResourceConnectionStatus = (\<lambda>r w. (Address r \<in> set (reachable w), w)),
      time_Now = clock\<rparr>"

text \<open>
  The manager of the examples: the resource \<open>r1\<close>, named \<open>node1\<close> and connected at
  \<open>10.0.0.5\<close>, is running and registered with the notes \<open>old\<close>; its last good check was
  at \<open>since\<close>. The clock shows \<open>now\<close> and the addresses \<open>up\<close> answer.
\<close>

definition node1 :: "string \<Rightarrow> Resource" where
  "node1 status = \<lparr>Name = ''node1'', Address = ''10.0.0.5'', Status = status\<rparr>"

definition managing_r1 ::
  "string \<Rightarrow> time \<Rightarrow> time \<Rightarrow> string list \<Rightarrow> simq directResourceManager" where
  "managing_r1 status since now up =
     \<lparr>resources = [(''r1'', \<lparr>notes' = ''old'', lastGoodCheck = since\<rparr>)],
      q = \<lparr>pool = [(''r1'', node1 status)], ids = [], reachable = up, clock = now\<rparr>,
      calls = [], errlog = []\<rparr>"

text \<open>A manager that has registered nothing yet, on a queue that will hand out \<open>r1\<close>.\<close>

definition fresh_manager :: "string list \<Rightarrow> simq directResourceManager" where
  "fresh_manager up = Setup \<lparr>pool = [], ids = [''r1''], reachable = up, clock = 0\<rparr>"

text \<open>
  A manager with the registry and the queue resources given, at the time \<open>now\<close>, with
  the addresses \<open>up\<close> answering.
\<close>

definition manager_of ::
  "ProtectedMap \<Rightarrow> (string \<times> Resource) list \<Rightarrow> time \<Rightarrow> string list
    \<Rightarrow> simq directResourceManager" where
  "manager_of registry broker now up =
     \<lparr>resources = registry,
      q = \<lparr>pool = broker, ids = [], reachable = up, clock = now\<rparr>,
      calls = [], errlog = []\<rparr>"

section \<open>Properties\<close>

lemmas pm_defs = pm_New_def pm_Set_def pm_Get_def pm_Delete_def pm_Count_def pm_Iterator_def
  pm_keys_def pm_wf_def

lemmas sim_defs = simQueue_def sim_AddResource_def sim_change_def sim_RemoveResource_def
  managing_r1_def fresh_manager_def manager_of_def node1_def Setup_def called_def
  parseParams_def index_params_def zero_time_def

subsection \<open>The registry\<close>

lemma pm_Get_pm_Set: "pm_Get (pm_Set key val pm) key = Some val"
  by (simp add: pm_defs update_conv')


lemma map_of_middle:
  "key \<notin> fst ` set before \<Longrightarrow> map_of (before @ (key, v) # after) key = Some v"
  by (induction before) auto

subsection \<open>Listing the managed resources\<close>



text \<open>
  C1. The specification has \<^verbatim>\<open>GetManagedResources\<close> return exactly the keys of the
  registry. The code does not: the slice starts with one empty string for each entry, and the ids
  are appended behind them. With \<open>r1\<close> as the only key the result is the empty string
  and \<open>r1\<close>, and the empty string is no key of the registry.
\<close>

theorem GetManagedResources_pads_with_empty_ids:
  "GetManagedResources (managing_r1 ''running'' 0 0 []) = ['''', ''r1'']
   \<and> '''' \<notin> pm_keys (resources (managing_r1 ''running'' 0 0 []))"
  by (simp add: GetManagedResources_def pm_defs managing_r1_def)

subsection \<open>Adding a resource\<close>

text \<open>
  C3. When the parameters lack the key \<open>address\<close> or the key \<open>name\<close>,
  \<^verbatim>\<open>AddResource\<close> returns the error that names the missing field (\<open>address\<close> when
  both are missing) and the manager is as before: the registry and the state of the
  queue are unchanged and no call on the queue is made.
\<close>

theorem AddResource_missing_field:
  assumes "params ''address'' = None \<or> params ''name'' = None"
  shows "AddResource Q params this =
           (Some (if params ''address'' = None
                  then ''Cannot add resource, address was not specified.''
                  else ''Cannot add resource, name was not specified.''), this)"
  using assms by (auto simp: AddResource_def split: option.splits)

theorem AddResource_missing_field_witness:
  "AddResource simQueue [''name'' \<mapsto> ''node1''] (fresh_manager [''10.0.0.5'']) =
     (Some ''Cannot add resource, address was not specified.'', fresh_manager [''10.0.0.5''])
   \<and> AddResource simQueue [''address'' \<mapsto> ''10.0.0.5''] (fresh_manager [''10.0.0.5'']) =
     (Some ''Cannot add resource, name was not specified.'', fresh_manager [''10.0.0.5''])"
  using
    AddResource_missing_field
      [of "[''name'' \<mapsto> ''node1'']" simQueue "fresh_manager [''10.0.0.5'']"]
    AddResource_missing_field
      [of "[''address'' \<mapsto> ''10.0.0.5'']" simQueue "fresh_manager [''10.0.0.5'']"]
  by simp

text \<open>
  C4. When the queue registers the resource under \<open>uuid\<close> and then fails to connect
  it, \<^verbatim>\<open>AddResource\<close> returns the error of the connection and leaves the registry as it
  was: an id that was no key before is no key afterwards. The two calls on the queue have
  been made, and the queue is in the state that the failed connection left.
\<close>

theorem AddResource_connect_fails:
  assumes "params ''address'' = Some address" and "params ''name'' = Some name"
    and "q_AddResource Q name (q this) = (Inr uuid, w1)"
    and "q_ConnectResource Q uuid address w1 = (Some e, w2)"
  shows "fst (AddResource Q params this) = Some e
    \<and> resources (snd (AddResource Q params this)) = resources this
    \<and> (uuid \<notin> pm_keys (resources this)
         \<longrightarrow> uuid \<notin> pm_keys (resources (snd (AddResource Q params this)))
           \<and> pm_Get (resources (snd (AddResource Q params this))) uuid = None)
    \<and> q (snd (AddResource Q params this)) = w2
    \<and> calls (snd (AddResource Q params this)) =
        calls this @ [CallAddResource name, CallConnectResource uuid address]"
  using assms
  by (auto simp: AddResource_def called_def pm_defs map_of_eq_None_iff)

theorem AddResource_connect_fails_witness:
  "fst (AddResource simQueue [''name'' \<mapsto> ''node1'', ''address'' \<mapsto> ''10.0.0.5'']
     (fresh_manager [])) = Some ''resource does not answer''
   \<and> resources (snd (AddResource simQueue [''name'' \<mapsto> ''node1'', ''address'' \<mapsto> ''10.0.0.5'']
        (fresh_manager []))) = []
   \<and> map_of (pool (q (snd (AddResource simQueue
        [''name'' \<mapsto> ''node1'', ''address'' \<mapsto> ''10.0.0.5''] (fresh_manager []))))) ''r1''
      = Some \<lparr>Name = ''node1'', Address = '''', Status = ''''\<rparr>"
  using AddResource_connect_fails [of "[''name'' \<mapsto> ''node1'', ''address'' \<mapsto> ''10.0.0.5'']"
      "''10.0.0.5''" "''node1''" simQueue "fresh_manager []" "''r1''"
      "\<lparr>pool = [(''r1'', \<lparr>Name = ''node1'', Address = '''', Status = ''''\<rparr>)], ids = [],
        reachable = [], clock = 0\<rparr>"
      "''resource does not answer''"
      "\<lparr>pool = [(''r1'', \<lparr>Name = ''node1'', Address = '''', Status = ''''\<rparr>)], ids = [],
        reachable = [], clock = 0\<rparr>"]
  by (simp add: sim_defs pm_defs)

text \<open>
  C8. When the queue registers the resource under \<open>uuid\<close> and connects it,
  \<^verbatim>\<open>AddResource\<close> returns no error and the registry holds for \<open>uuid\<close> the notes of the
  parameters (the empty string when the key \<open>notes\<close> is missing) with the zero time as
  last good check. \<^verbatim>\<open>GetResource\<close> for \<open>uuid\<close> then returns the resource that the queue
  finds, with a parameter map that maps \<open>notes\<close> to those notes: to the empty string
  when the resource was added without notes.
\<close>

theorem AddResource_success:
  assumes "params ''address'' = Some address" and "params ''name'' = Some name"
    and "q_AddResource Q name (q this) = (Inr uuid, w1)"
    and "q_ConnectResource Q uuid address w1 = (None, w2)"
  shows "fst (AddResource Q params this) = None
    \<and> pm_Get (resources (snd (AddResource Q params this))) uuid =
        Some \<lparr>notes' = (case params ''notes'' of None \<Rightarrow> '''' | Some n \<Rightarrow> n),
              lastGoodCheck = zero_time\<rparr>
    \<and> (\<forall>resource w3. q_GetResource Q uuid w2 = (Some resource, w3) \<longrightarrow>
          fst (GetResource Q uuid (snd (AddResource Q params this))) =
            Inr (resource,
                 [''notes'' \<mapsto> (case params ''notes'' of None \<Rightarrow> '''' | Some n \<Rightarrow> n)])
          \<and> (params ''notes'' = None \<longrightarrow>
               fst (GetResource Q uuid (snd (AddResource Q params this))) =
                 Inr (resource, [''notes'' \<mapsto> ''''])))"
  using assms
  by (auto simp: AddResource_def GetResource_def called_def pm_defs parseParams_def
      index_params_def update_conv')

theorem AddResource_success_witness:
  "fst (AddResource simQueue [''name'' \<mapsto> ''node1'', ''address'' \<mapsto> ''10.0.0.5'']
         (fresh_manager [''10.0.0.5''])) = None
   \<and> pm_Get (resources (snd (AddResource simQueue
         [''name'' \<mapsto> ''node1'', ''address'' \<mapsto> ''10.0.0.5''] (fresh_manager [''10.0.0.5'']))))
       ''r1'' = Some \<lparr>notes' = '''', lastGoodCheck = zero_time\<rparr>
   \<and> fst (GetResource simQueue ''r1''
        (snd (AddResource simQueue [''name'' \<mapsto> ''node1'', ''address'' \<mapsto> ''10.0.0.5'']
           (fresh_manager [''10.0.0.5''])))) = Inr (node1 ''running'', [''notes'' \<mapsto> ''''])"
  using AddResource_success [of "[''name'' \<mapsto> ''node1'', ''address'' \<mapsto> ''10.0.0.5'']"
      "''10.0.0.5''" "''node1''" simQueue "fresh_manager [''10.0.0.5'']" "''r1''"
      "\<lparr>pool = [(''r1'', \<lparr>Name = ''node1'', Address = '''', Status = ''''\<rparr>)], ids = [],
        reachable = [''10.0.0.5''], clock = 0\<rparr>"
      "\<lparr>pool = [(''r1'', node1 ''running'')], ids = [],
        reachable = [''10.0.0.5''], clock = 0\<rparr>"]
  by (simp add: sim_defs pm_defs)

subsection \<open>Deleting a resource\<close>





subsection \<open>Updating a resource\<close>

lemma GetResource_found:
  assumes "q_GetResource Q resourceid (q this) = (Some resource, w)"
    and "pm_Get (resources this) resourceid = Some localres"
  shows "GetResource Q resourceid this =
    (Inr (resource, [''notes'' \<mapsto> notes' localres]),
     called (CallGetResource resourceid) w this)"
  using assms by (simp add: GetResource_def called_def)

text \<open>
  C2. The specification has \<^verbatim>\<open>UpdateResource\<close> with the status \<open>pause\<close> call the
  queue once to pause a resource that is not paused, and make no further call when it is
  repeated on the resource that is now paused. The code compares the status of the resource with the
  word \<open>pause\<close> of the request; a paused resource has the status \<open>paused\<close>, which is
  another string, and so the queue is called to pause it again.
\<close>

theorem UpdateResource_pauses_paused_resource:
  assumes "q_GetResource Q resourceid (q this) = (Some resource, w)"
    and "pm_Get (resources this) resourceid = Some localres"
    and "Status resource = ''paused''"
  shows "calls (snd (UpdateResource Q resourceid ''pause'' newparams this)) =
     calls this @ [CallGetResource resourceid, CallPauseResource resourceid]"
  using assms
  by (simp add: UpdateResource_def GetResource_found called_def split: prod.splits)

theorem UpdateResource_pauses_paused_resource_witness:
  "pauses (calls (snd (UpdateResource simQueue ''r1'' ''pause'' Map.empty
      (managing_r1 ''running'' 0 0 [''10.0.0.5''])))) = 1
   \<and> map_of (pool (q (snd (UpdateResource simQueue ''r1'' ''pause'' Map.empty
      (managing_r1 ''running'' 0 0 [''10.0.0.5'']))))) ''r1'' = Some (node1 ''paused'')
   \<and> pauses (calls (snd (UpdateResource simQueue ''r1'' ''pause'' Map.empty
       (snd (UpdateResource simQueue ''r1'' ''pause'' Map.empty
          (managing_r1 ''running'' 0 0 [''10.0.0.5'']))))))  = 2"
proof -
  let ?m1 = "snd (UpdateResource simQueue ''r1'' ''pause'' Map.empty
      (managing_r1 ''running'' 0 0 [''10.0.0.5'']))"
  have m1: "?m1 = \<lparr>resources = [(''r1'', \<lparr>notes' = [], lastGoodCheck = 0\<rparr>)],
     q = \<lparr>pool = [(''r1'', node1 ''paused'')], ids = [], reachable = [''10.0.0.5''],
          clock = 0\<rparr>,
     calls = [CallGetResource ''r1'', CallPauseResource ''r1''],
     errlog = []\<rparr>"
    by (simp add: UpdateResource_def GetResource_def sim_defs pm_defs)
  show ?thesis
    using UpdateResource_pauses_paused_resource [of simQueue "''r1''" ?m1 "node1 ''paused''"
        "q ?m1" "\<lparr>notes' = [], lastGoodCheck = 0\<rparr>" Map.empty]
    unfolding m1 by (simp add: sim_defs pm_defs)
qed

text \<open>
  C9. When \<^verbatim>\<open>UpdateResource\<close> calls the queue to pause or to resume the resource and
  the call fails, the error is returned, and the registry entry of the resource has been
  overwritten all the same with the metadata of the new parameters: the registry is not
  put back, and differs from the one before whenever the metadata differ.
\<close>

theorem UpdateResource_no_rollback:
  assumes "q_GetResource Q resourceid (q this) = (Some resource, w1)"
    and "pm_Get (resources this) resourceid = Some localres"
    and "Status resource \<noteq> newstatus"
    and "newstatus = ''pause'' \<and> q_PauseResource Q resourceid w1 = (Some e, w2)
       \<or> newstatus = ''resume'' \<and> q_ResumeResource Q resourceid w1 = (Some e, w2)"
  shows "fst (UpdateResource Q resourceid newstatus newparams this) = Some e
    \<and> pm_Get (resources (snd (UpdateResource Q resourceid newstatus newparams this))) resourceid
        = Some (parseParams newparams)
    \<and> (localres \<noteq> parseParams newparams \<longrightarrow>
         resources (snd (UpdateResource Q resourceid newstatus newparams this))
           \<noteq> resources this)"
proof -
  let ?r = "UpdateResource Q resourceid newstatus newparams this"
  have got: "GetResource Q resourceid this =
      (Inr (resource, [''notes'' \<mapsto> notes' localres]),
       called (CallGetResource resourceid) w1 this)"
    using assms(1,2) by (rule GetResource_found)
  have run: "fst ?r = Some e
      \<and> resources (snd ?r) = pm_Set resourceid (parseParams newparams) (resources this)"
    using assms(3,4) by (auto simp: UpdateResource_def got called_def)
  have stored: "pm_Get (pm_Set resourceid (parseParams newparams) (resources this)) resourceid
      = Some (parseParams newparams)"
    by (rule pm_Get_pm_Set)
  have changed: "pm_Set resourceid (parseParams newparams) (resources this) \<noteq> resources this"
    if "localres \<noteq> parseParams newparams"
    using that stored assms(2) by auto
  show ?thesis using run stored changed by simp
qed

theorem UpdateResource_no_rollback_witness:
  "fst (UpdateResource simQueue ''r1'' ''pause'' [''notes'' \<mapsto> ''new'']
      (managing_r1 ''running'' 100 105 [])) = Some ''resource does not answer''
   \<and> pm_Get (resources (managing_r1 ''running'' 100 105 [])) ''r1''
       = Some \<lparr>notes' = ''old'', lastGoodCheck = 100\<rparr>
   \<and> pm_Get (resources (snd (UpdateResource simQueue ''r1'' ''pause'' [''notes'' \<mapsto> ''new'']
      (managing_r1 ''running'' 100 105 [])))) ''r1''
       = Some \<lparr>notes' = ''new'', lastGoodCheck = zero_time\<rparr>"
  using UpdateResource_no_rollback [of simQueue "''r1''" "managing_r1 ''running'' 100 105 []"
      "node1 ''running''" "q (managing_r1 ''running'' 100 105 [])"
      "\<lparr>notes' = ''old'', lastGoodCheck = 100\<rparr>" "''pause''" "''resource does not answer''"
      "q (managing_r1 ''running'' 100 105 [])" "[''notes'' \<mapsto> ''new'']"]
  by (simp add: sim_defs pm_defs)

text \<open>
  C10. The metadata made from a parameter map depend on its key \<open>notes\<close> only, and
  their last good check is the zero time. So an \<^verbatim>\<open>UpdateResource\<close> that returns no error
  leaves for the resource the notes of the new parameters and the zero time, whatever last
  good check was recorded before; and the parameter map that \<^verbatim>\<open>GetResource\<close> returns has
  the single key \<open>notes\<close>, with the notes of the registry.
\<close>

theorem parseParams_keeps_notes_only:
  "(params ''notes'' = params2 ''notes'' \<longrightarrow> parseParams params = parseParams params2)
   \<and> lastGoodCheck (parseParams params) = zero_time
   \<and> (fst (UpdateResource Q resourceid newstatus params this) = None \<longrightarrow>
        pm_Get (resources (snd (UpdateResource Q resourceid newstatus params this))) resourceid =
          Some \<lparr>notes' = (case params ''notes'' of None \<Rightarrow> '''' | Some n \<Rightarrow> n),
                lastGoodCheck = zero_time\<rparr>)
   \<and> (\<forall>resource parameters.
        fst (GetResource Q resourceid this) = Inr (resource, parameters) \<longrightarrow>
        dom parameters = {''notes''}
        \<and> (\<exists>localres. pm_Get (resources this) resourceid = Some localres
              \<and> parameters ''notes'' = Some (notes' localres)))"
proof (intro conjI allI impI)
  assume "params ''notes'' = params2 ''notes''"
  then show "parseParams params = parseParams params2"
    by (simp add: parseParams_def index_params_def)
next
  show "lastGoodCheck (parseParams params) = zero_time"
    by (simp add: parseParams_def)
next
  assume "fst (UpdateResource Q resourceid newstatus params this) = None"
  then have "resources (snd (UpdateResource Q resourceid newstatus params this)) =
      pm_Set resourceid (parseParams params)
        (resources (snd (GetResource Q resourceid this)))"
    by (auto simp: UpdateResource_def called_def Let_def
        split: prod.splits sum.splits if_splits)
  then show "pm_Get (resources (snd (UpdateResource Q resourceid newstatus params this)))
      resourceid =
      Some \<lparr>notes' = (case params ''notes'' of None \<Rightarrow> '''' | Some n \<Rightarrow> n),
            lastGoodCheck = zero_time\<rparr>"
    by (simp add: pm_Get_pm_Set parseParams_def index_params_def)
next
  fix resource parameters
  assume got: "fst (GetResource Q resourceid this) = Inr (resource, parameters)"
  then show "dom parameters = {''notes''}"
    by (auto simp: GetResource_def called_def Let_def
        split: prod.splits option.splits if_splits)
  from got show "\<exists>localres. pm_Get (resources this) resourceid = Some localres
      \<and> parameters ''notes'' = Some (notes' localres)"
    by (auto simp: GetResource_def called_def Let_def split: prod.splits option.splits)
qed

theorem parseParams_keeps_notes_only_witness:
  "parseParams [''notes'' \<mapsto> ''new'', ''name'' \<mapsto> ''node2''] = parseParams [''notes'' \<mapsto> ''new'']
   \<and> pm_Get (resources (managing_r1 ''running'' 100 105 [''10.0.0.5''])) ''r1''
       = Some \<lparr>notes' = ''old'', lastGoodCheck = 100\<rparr>
   \<and> fst (UpdateResource simQueue ''r1'' ''pause'' [''notes'' \<mapsto> ''new'', ''name'' \<mapsto> ''node2'']
        (managing_r1 ''running'' 100 105 [''10.0.0.5''])) = None
   \<and> pm_Get (resources (snd (UpdateResource simQueue ''r1'' ''pause''
        [''notes'' \<mapsto> ''new'', ''name'' \<mapsto> ''node2'']
        (managing_r1 ''running'' 100 105 [''10.0.0.5''])))) ''r1''
       = Some \<lparr>notes' = ''new'', lastGoodCheck = zero_time\<rparr>
   \<and> fst (GetResource simQueue ''r1'' (managing_r1 ''running'' 100 105 [''10.0.0.5'']))
       = Inr (node1 ''running'', [''notes'' \<mapsto> ''old''])
   \<and> dom [''notes'' \<mapsto> ''old''] = {''notes''}"
  using parseParams_keeps_notes_only
    [of "[''notes'' \<mapsto> ''new'', ''name'' \<mapsto> ''node2'']" "[''notes'' \<mapsto> ''new'']"
      simQueue "''r1''" "''pause''" "managing_r1 ''running'' 100 105 [''10.0.0.5'']"]
  by (simp add: UpdateResource_def GetResource_def sim_defs pm_defs)

subsection \<open>The keeper\<close>

lemma lookups_append: "lookups (cs @ ds) = lookups cs @ lookups ds"
  by (induction cs rule: lookups.induct) simp_all

text \<open>One turn of the loop, by the answer of the queue.\<close>

lemma Keep_body_not_found:
  assumes "q_GetResource Q key (q this) = (None, w1)"
  shows "Keep_body Q key localResource this =
    (called (CallGetResource key) w1 this)\<lparr>errlog := errlog this @ [key]\<rparr>"
  using assms by (simp add: Keep_body_def called_def)

lemma Keep_body_found:
  assumes "q_GetResource Q key (q this) = (Some queueResource, w1)"
    and "q_CheckResourceConnectionStatus Q queueResource w1 = (status, w2)"
  shows "Keep_body Q key localResource this =
    (called (CallCheckResourceConnectionStatus queueResource) w2
       (called (CallGetResource key) w1 this))
     \<lparr>resources := pm_Set key
        (if status then localResource\<lparr>lastGoodCheck := time_Now Q w2\<rparr> else localResource)
        (resources this)\<rparr>"
  using assms by (simp add: Keep_body_def called_def)

lemma Keep_body_cases:
  obtains (not_found) w1 where "q_GetResource Q key (q this) = (None, w1)"
  | (found) queueResource w1 status w2 where
      "q_GetResource Q key (q this) = (Some queueResource, w1)"
      "q_CheckResourceConnectionStatus Q queueResource w1 = (status, w2)"
proof (cases "q_GetResource Q key (q this)")
  case (Pair found w1)
  show ?thesis
  proof (cases found)
    case None
    with Pair not_found show ?thesis by simp
  next
    case (Some queueResource)
    obtain status w2 where "q_CheckResourceConnectionStatus Q queueResource w1 = (status, w2)"
      by (cases "q_CheckResourceConnectionStatus Q queueResource w1")
    with Pair Some found show ?thesis by simp
  qed
qed

lemma Keep_body_keys:
  assumes "key \<in> fst ` set (resources this)"
  shows "map fst (resources (Keep_body Q key localResource this)) = map fst (resources this)"
  using assms
  by (cases rule: Keep_body_cases [of Q key this])
    (simp_all add: Keep_body_not_found Keep_body_found called_def pm_defs update_keys)

lemma Keep_body_other:
  assumes "k \<noteq> key"
  shows "map_of (resources (Keep_body Q key localResource this)) k = map_of (resources this) k"
  using assms
  by (cases rule: Keep_body_cases [of Q key this])
    (simp_all add: Keep_body_not_found Keep_body_found called_def pm_defs update_conv')

lemma Keep_body_lookups:
  "lookups (calls (Keep_body Q key localResource this)) = lookups (calls this) @ [key]"
  by (cases rule: Keep_body_cases [of Q key this])
    (simp_all add: Keep_body_not_found Keep_body_found called_def lookups_append)

lemma Keep_body_errlog:
  "set (errlog this) \<subseteq> set (errlog (Keep_body Q key localResource this))"
  by (cases rule: Keep_body_cases [of Q key this])
    (auto simp: Keep_body_not_found Keep_body_found called_def)

text \<open>The loop over the entries that the iterator yields.\<close>

lemma Keep_loop_keys:
  assumes "fst ` set entries \<subseteq> fst ` set (resources this)"
  shows "map fst (resources (Keep_loop Q entries this)) = map fst (resources this)"
  using assms
proof (induction entries arbitrary: this)
  case Nil
  show ?case by simp
next
  case (Cons data rest)
  have step: "map fst (resources (Keep_body Q (fst data) (snd data) this)) = map fst (resources this)"
    using Cons.prems by (intro Keep_body_keys) simp
  have "fst ` set rest \<subseteq> set (map fst (resources (Keep_body Q (fst data) (snd data) this)))"
    using Cons.prems unfolding step by auto
  then have "fst ` set rest \<subseteq> fst ` set (resources (Keep_body Q (fst data) (snd data) this))"
    by simp
  from Cons.IH [OF this] step show ?case by simp
qed

lemma Keep_loop_other:
  assumes "k \<notin> fst ` set entries"
  shows "map_of (resources (Keep_loop Q entries this)) k = map_of (resources this) k"
  using assms
proof (induction entries arbitrary: this)
  case Nil
  show ?case by simp
next
  case (Cons data rest)
  then have "k \<noteq> fst data" and "k \<notin> fst ` set rest" by auto
  then show ?case using Cons.IH by (simp add: Keep_body_other)
qed

lemma Keep_loop_lookups:
  "lookups (calls (Keep_loop Q entries this)) = lookups (calls this) @ map fst entries"
  by (induction entries arbitrary: this) (simp_all add: Keep_body_lookups)

lemma Keep_loop_errlog:
  "set (errlog this) \<subseteq> set (errlog (Keep_loop Q entries this))"
proof (induction entries arbitrary: this)
  case Nil
  show ?case by simp
next
  case (Cons data rest)
  show ?case using Keep_body_errlog Cons.IH by (simp, blast)
qed

lemma Keep_loop_append:
  "Keep_loop Q (xs @ ys) this = Keep_loop Q ys (Keep_loop Q xs this)"
  by (induction xs arbitrary: this) simp_all

text \<open>
  The entry \<open>(key, localResource)\<close> that the iterator yields after the entries \<open>before\<close>
  is handled in the state in which the loop over \<open>before\<close> ends, and what is stored for
  \<open>key\<close> then is what the registry holds for \<open>key\<close> at the end of the pass.
\<close>

lemma Keep_entry:
  assumes "pm_wf (resources this)"
    and "pm_Iterator (resources this) = before @ (key, localResource) # after"
  shows "pm_Get (resources (Keep Q this)) key =
     pm_Get (resources (Keep_body Q key localResource (Keep_loop Q before this))) key"
    and "set (errlog (Keep_body Q key localResource (Keep_loop Q before this)))
      \<subseteq> set (errlog (Keep Q this))"
    and "key \<in> fst ` set (resources (Keep_loop Q before this))"
proof -
  have split: "resources this = before @ (key, localResource) # after"
    using assms(2) by (simp add: pm_defs)
  have "distinct (map fst (before @ (key, localResource) # after))"
    using assms(1) unfolding split pm_wf_def .
  then have later: "key \<notin> fst ` set after"
    by auto
  have run: "Keep Q this =
      Keep_loop Q after (Keep_body Q key localResource (Keep_loop Q before this))"
    by (simp add: Keep_def assms(2) Keep_loop_append)
  show "pm_Get (resources (Keep Q this)) key =
     pm_Get (resources (Keep_body Q key localResource (Keep_loop Q before this))) key"
    unfolding run pm_Get_def using later by (rule Keep_loop_other)
  show "set (errlog (Keep_body Q key localResource (Keep_loop Q before this)))
      \<subseteq> set (errlog (Keep Q this))"
    unfolding run by (rule Keep_loop_errlog)
  have "fst ` set before \<subseteq> fst ` set (resources this)"
    unfolding split by auto
  then have "map fst (resources (Keep_loop Q before this)) = map fst (resources this)"
    by (rule Keep_loop_keys)
  then have "set (map fst (resources (Keep_loop Q before this))) = set (map fst (resources this))"
    by simp
  then show "key \<in> fst ` set (resources (Keep_loop Q before this))"
    unfolding split by simp
qed

text \<open>
  C6. In a pass of \<^verbatim>\<open>Keep\<close> over a registry without double keys, take the entry
  \<open>(key, localResource)\<close> that the iterator yields after the entries \<open>before\<close>. When
  the queue finds the resource and the check of the connection answers \<open>status\<close>, the
  registry holds for \<open>key\<close> at the end of the pass the metadata of the entry with the
  last good check set to the time read after the check when \<open>status\<close> is true, and the
  metadata of the entry as they were when it is false. With the clock at 100 and a good
  connection the last good check becomes 100; with the clock at 105 and a bad connection
  it stays 100.
\<close>

theorem Keep_lastGoodCheck:
  assumes "pm_wf (resources this)"
    and "pm_Iterator (resources this) = before @ (key, localResource) # after"
    and "q_GetResource Q key (q (Keep_loop Q before this)) = (Some queueResource, w1)"
    and "q_CheckResourceConnectionStatus Q queueResource w1 = (status, w2)"
  shows "pm_Get (resources (Keep Q this)) key =
     Some (if status then localResource\<lparr>lastGoodCheck := time_Now Q w2\<rparr> else localResource)"
  by (simp add: Keep_entry(1) [OF assms(1,2)] Keep_body_found [OF assms(3,4)] pm_Get_pm_Set)

theorem Keep_lastGoodCheck_witness:
  "pm_Get (resources (Keep simQueue (managing_r1 ''running'' 0 100 [''10.0.0.5'']))) ''r1''
     = Some \<lparr>notes' = ''old'', lastGoodCheck = 100\<rparr>
   \<and> pm_Get (resources (Keep simQueue (managing_r1 ''running'' 100 105 []))) ''r1''
     = Some \<lparr>notes' = ''old'', lastGoodCheck = 100\<rparr>"
  using
    Keep_lastGoodCheck [of "managing_r1 ''running'' 0 100 [''10.0.0.5'']" "[]" "''r1''"
      "\<lparr>notes' = ''old'', lastGoodCheck = 0\<rparr>" "[]" simQueue "node1 ''running''"
      "q (managing_r1 ''running'' 0 100 [''10.0.0.5''])" True
      "q (managing_r1 ''running'' 0 100 [''10.0.0.5''])"]
    Keep_lastGoodCheck [of "managing_r1 ''running'' 100 105 []" "[]" "''r1''"
      "\<lparr>notes' = ''old'', lastGoodCheck = 100\<rparr>" "[]" simQueue "node1 ''running''"
      "q (managing_r1 ''running'' 100 105 [])" False
      "q (managing_r1 ''running'' 100 105 [])"]
  by (simp add: sim_defs pm_defs)

text \<open>
  C7. A pass of \<^verbatim>\<open>Keep\<close> removes no entry: the keys of the registry after the pass
  are the keys before it, in the same order. Every entry is handled: the pass looks up in
  the queue each key that the iterator yields, in turn, whatever the earlier lookups
  answered. An entry that the queue does not find keeps its metadata, and an error line
  with its id is written.
\<close>

theorem Keep_never_removes:
  "pm_keys (resources (Keep Q this)) = pm_keys (resources this)
   \<and> map fst (pm_Iterator (resources (Keep Q this))) = map fst (pm_Iterator (resources this))
   \<and> lookups (calls (Keep Q this)) = lookups (calls this) @ map fst (pm_Iterator (resources this))
   \<and> (\<forall>before key localResource after w1.
        pm_wf (resources this)
        \<and> pm_Iterator (resources this) = before @ (key, localResource) # after
        \<and> q_GetResource Q key (q (Keep_loop Q before this)) = (None, w1)
        \<longrightarrow> pm_Get (resources (Keep Q this)) key = Some localResource
          \<and> key \<in> set (errlog (Keep Q this)))"
proof -
  have keys: "map fst (resources (Keep Q this)) = map fst (resources this)"
    unfolding Keep_def pm_Iterator_def by (rule Keep_loop_keys) simp
  then have "set (map fst (resources (Keep Q this))) = set (map fst (resources this))"
    by simp
  then have keyset: "pm_keys (resources (Keep Q this)) = pm_keys (resources this)"
    by (simp add: pm_keys_def)
  have looked: "lookups (calls (Keep Q this)) =
      lookups (calls this) @ map fst (pm_Iterator (resources this))"
    unfolding Keep_def by (rule Keep_loop_lookups)
  have skipped: "pm_Get (resources (Keep Q this)) key = Some localResource
      \<and> key \<in> set (errlog (Keep Q this))"
    if wf: "pm_wf (resources this)"
      and it: "pm_Iterator (resources this) = before @ (key, localResource) # after"
      and nf: "q_GetResource Q key (q (Keep_loop Q before this)) = (None, w1)"
    for before key localResource after w1
  proof -
    let ?at = "Keep_loop Q before this"
    have earlier: "key \<notin> fst ` set before"
      using wf it by (auto simp: pm_defs)
    then have "map_of (resources ?at) key = map_of (resources this) key"
      by (rule Keep_loop_other)
    also have "\<dots> = Some localResource"
      using map_of_middle [OF earlier, of localResource after] it
      by (simp only: pm_Iterator_def)
    finally have here: "pm_Get (resources ?at) key = Some localResource"
      by (simp add: pm_Get_def)
    have "pm_Get (resources (Keep Q this)) key = Some localResource"
      using Keep_entry(1) [OF wf it, of Q] here
      by (simp add: Keep_body_not_found [OF nf] called_def)
    moreover have "key \<in> set (errlog (Keep Q this))"
      using Keep_entry(2) [OF wf it, of Q]
      by (auto simp: Keep_body_not_found [OF nf] called_def)
    ultimately show ?thesis by simp
  qed
  show ?thesis
    using keys keyset looked skipped unfolding pm_Iterator_def by blast
qed

theorem Keep_never_removes_witness:
  "pm_keys (resources (Keep simQueue
      (manager_of [(''r1'', parseParams Map.empty), (''r2'', parseParams Map.empty)]
         [(''r2'', node1 ''running'')] 100 [''10.0.0.5'']))) = {''r1'', ''r2''}
   \<and> lookups (calls (Keep simQueue
      (manager_of [(''r1'', parseParams Map.empty), (''r2'', parseParams Map.empty)]
         [(''r2'', node1 ''running'')] 100 [''10.0.0.5'']))) = [''r1'', ''r2'']
   \<and> resources (Keep simQueue
      (manager_of [(''r1'', parseParams Map.empty), (''r2'', parseParams Map.empty)]
         [(''r2'', node1 ''running'')] 100 [''10.0.0.5''])) =
        [(''r1'', \<lparr>notes' = '''', lastGoodCheck = 0\<rparr>),
         (''r2'', \<lparr>notes' = '''', lastGoodCheck = 100\<rparr>)]
   \<and> errlog (Keep simQueue
      (manager_of [(''r1'', parseParams Map.empty), (''r2'', parseParams Map.empty)]
         [(''r2'', node1 ''running'')] 100 [''10.0.0.5''])) = [''r1'']"
  using Keep_never_removes [of simQueue
      "manager_of [(''r1'', parseParams Map.empty), (''r2'', parseParams Map.empty)]
         [(''r2'', node1 ''running'')] 100 [''10.0.0.5'']",
      THEN conjunct2, THEN conjunct2, THEN conjunct2, rule_format,
      of "[]" "''r1''" "parseParams Map.empty" "[(''r2'', parseParams Map.empty)]"
        "\<lparr>pool = [(''r2'', node1 ''running'')], ids = [], reachable = [''10.0.0.5''],
          clock = 100\<rparr>"]
  by (simp add: Keep_def Keep_body_def sim_defs pm_defs insert_commute)

end
